theory Spec2Isabelle
  imports Complex_Main "HOL-Library.Monad_Syntax" "HOL-Library.Sublist"
begin

section \<open>Data model (types.ts and the state held by App)\<close>

text \<open>
  The two enums of \<^verbatim>\<open>types.ts\<close>.
\<close>

datatype AppState = TREE | SCATTER | FOCUS

datatype GestureType = NONE | FIST | OPEN | PINCH

text \<open>
  \<^verbatim>\<open>focusedPhotoIndex\<close> has the TypeScript type \<^verbatim>\<open>number | null\<close>. The only numbers the
  program ever stores there are \<^verbatim>\<open>0\<close> and \<^verbatim>\<open>(prevIndex + 1) % photos.length\<close>. On
  non-negative integers that is an integer again, except that the remainder by zero is
  \<^verbatim>\<open>NaN\<close> in JavaScript (no exception is raised), and \<^verbatim>\<open>NaN + 1\<close> and \<^verbatim>\<open>NaN % n\<close> are
  \<^verbatim>\<open>NaN\<close> too. So the stored numbers are modelled as a natural number or \<^verbatim>\<open>NaN\<close>; \<open>None\<close>
  is \<^verbatim>\<open>null\<close>. (Indices stay far below \<open>2^53\<close>, where JavaScript numbers are exact integers.)
\<close>

datatype jsnum = Idx nat | NaN

fun next_index :: "jsnum \<Rightarrow> nat \<Rightarrow> jsnum" where
  "next_index (Idx prevIndex) len = (if len = 0 then NaN else Idx ((prevIndex + 1) mod len))"
| "next_index NaN len = NaN"

text \<open>
  The state of the \<^verbatim>\<open>App\<close> component: its four \<^verbatim>\<open>useState\<close> cells and the
  \<^verbatim>\<open>handPositionRef\<close>. \<open>revokedUrls\<close> records the calls of \<^verbatim>\<open>URL.revokeObjectURL\<close>, the one
  effect of the handlers outside the component.
\<close>

record App =
  appState :: AppState
  currentGesture :: GestureType
  photos :: "string list"
  focusedPhotoIndex :: "jsnum option"
  handPositionRef :: "real \<times> real"
  revokedUrls :: "string list"

definition DEFAULT_PHOTOS :: "string list" where
  "DEFAULT_PHOTOS =
     [''https://picsum.photos/400/600'', ''https://picsum.photos/400/400'',
      ''https://picsum.photos/500/400'', ''https://picsum.photos/400/500'']"

definition initial :: App where
  "initial = \<lparr>appState = TREE, currentGesture = NONE, photos = DEFAULT_PHOTOS,
     focusedPhotoIndex = None, handPositionRef = (0, 0), revokedUrls = []\<rparr>"

section \<open>The display state machine (handleGestureDetected)\<close>

text \<open>
  \<^verbatim>\<open>handleGestureDetected\<close> first stores the gesture and the hand position, then runs the
  updater of \<^verbatim>\<open>setAppState\<close> on the previous display state. The updater's three \<^verbatim>\<open>if\<close>s are
  tried in the order of the source; \<^verbatim>\<open>photos.length\<close> is the length of the current photo array.
\<close>

definition handleGestureDetected :: "GestureType \<Rightarrow> real \<Rightarrow> real \<Rightarrow> App \<Rightarrow> App" where
  "handleGestureDetected gesture handX handY s =
     (let s1 = s\<lparr>currentGesture := gesture, handPositionRef := (handX, handY)\<rparr>;
          prev = appState s1
      in if gesture = FIST \<and> prev \<noteq> TREE then s1\<lparr>appState := TREE\<rparr>
         else if gesture = OPEN \<and> prev \<noteq> SCATTER then
           s1\<lparr>focusedPhotoIndex := None, appState := SCATTER\<rparr>
         else if gesture = PINCH \<and> prev = SCATTER then
           s1\<lparr>focusedPhotoIndex :=
                 (case focusedPhotoIndex s1 of
                    None \<Rightarrow> Some (Idx 0)
                  | Some prevIndex \<Rightarrow> Some (next_index prevIndex (length (photos s1)))),
               appState := FOCUS\<rparr>
         else s1)"

section \<open>Adding and removing photos\<close>

text \<open>
  \<^verbatim>\<open>handlePhotoUpload\<close>: when the file input holds a first file, the object URL created for it
  is appended to the photo array. The argument is that URL, \<open>None\<close> when no file was chosen.
\<close>

definition handlePhotoUpload :: "string option \<Rightarrow> App \<Rightarrow> App" where
  "handlePhotoUpload file s =
     (case file of None \<Rightarrow> s | Some url \<Rightarrow> s\<lparr>photos := photos s @ [url]\<rparr>)"

text \<open>
  \<^verbatim>\<open>photos[focusedPhotoIndex]\<close>: reading a JavaScript array outside its range, or at \<^verbatim>\<open>NaN\<close>,
  gives \<^verbatim>\<open>undefined\<close>, here \<open>None\<close>.
\<close>

fun js_index :: "'a list \<Rightarrow> jsnum \<Rightarrow> 'a option" where
  "js_index xs (Idx i) = (if i < length xs then Some (xs ! i) else None)"
| "js_index xs NaN = None"

text \<open>
  \<^verbatim>\<open>prev.filter((_, i) => ...)\<close>: the array method \<^verbatim>\<open>filter\<close> with a predicate on the element
  and its index.
\<close>

definition filter_with_index :: "('a \<Rightarrow> nat \<Rightarrow> bool) \<Rightarrow> 'a list \<Rightarrow> 'a list" where
  "filter_with_index f xs = map snd (filter (\<lambda>(i, x). f x i) (enumerate 0 xs))"

text \<open>
  \<^verbatim>\<open>handleRemovePhoto\<close>. With no focused index nothing happens. Otherwise
  \<^verbatim>\<open>photos[focusedPhotoIndex].startsWith('blob:')\<close> is evaluated first: when the array has no
  element at that index the method call on \<^verbatim>\<open>undefined\<close> throws a TypeError, and the handler
  is left before any state is set; the result is then \<open>None\<close>. \<^verbatim>\<open>i !== focusedPhotoIndex\<close>
  compares the numbers, and no index is equal to \<^verbatim>\<open>NaN\<close>.
\<close>

definition handleRemovePhoto :: "App \<Rightarrow> App option" where
  "handleRemovePhoto s =
     (case focusedPhotoIndex s of
        None \<Rightarrow> Some s
      | Some idx \<Rightarrow>
          (case js_index (photos s) idx of
             None \<Rightarrow> None
           | Some url \<Rightarrow>
               (let s1 = (if prefix ''blob:'' url
                          then s\<lparr>revokedUrls := revokedUrls s @ [url]\<rparr> else s)
                in Some (s1\<lparr>photos := filter_with_index (\<lambda>_ i. Idx i \<noteq> idx) (photos s1),
                            focusedPhotoIndex := None,
                            appState := SCATTER\<rparr>))))"

text \<open>
  The events the application reacts to. The remove button is rendered by
  \<^verbatim>\<open>InterfaceOverlay\<close> only when \<^verbatim>\<open>isFocusMode\<close> holds, that is when the display state is
  FOCUS and the focused index is not null; without the button a click cannot happen and the
  state stays as it is. A run stops at the first handler that throws.
\<close>

datatype event = GestureSample GestureType real real | FileUpload "string option" | RemoveClick

definition isFocusMode :: "App \<Rightarrow> bool" where
  "isFocusMode s = (appState s = FOCUS \<and> focusedPhotoIndex s \<noteq> None)"

fun step :: "event \<Rightarrow> App \<Rightarrow> App option" where
  "step (GestureSample gesture handX handY) s = Some (handleGestureDetected gesture handX handY s)"
| "step (FileUpload file) s = Some (handlePhotoUpload file s)"
| "step RemoveClick s = (if isFocusMode s then handleRemovePhoto s else Some s)"

fun run :: "event list \<Rightarrow> App \<Rightarrow> App option" where
  "run [] s = Some s"
| "run (e # es) s = (case step e s of None \<Rightarrow> None | Some s' \<Rightarrow> run es s')"

text \<open>
  What the reachable states do satisfy: the focused index is null in display state SCATTER,
  and it is \<open>0\<close> in display state FOCUS; it is never another number.
\<close>

definition focus_inv :: "App \<Rightarrow> bool" where
  "focus_inv s =
     ((appState s = SCATTER \<longrightarrow> focusedPhotoIndex s = None) \<and>
      (appState s = FOCUS \<longrightarrow> focusedPhotoIndex s = Some (Idx 0)) \<and>
      (appState s = TREE \<longrightarrow> focusedPhotoIndex s = None \<or> focusedPhotoIndex s = Some (Idx 0)))"

section \<open>The gesture classifier (HandManager.tsx)\<close>

text \<open>
  A landmark of the hand detector is an object with the numeric fields \<^verbatim>\<open>x\<close>, \<^verbatim>\<open>y\<close> and
  \<^verbatim>\<open>z\<close>. JavaScript numbers are IEEE doubles; they are modelled here as real numbers, so the
  arithmetic below is exact and no coordinate is \<^verbatim>\<open>NaN\<close>.
\<close>

record Landmark =
  lm_x :: real
  lm_y :: real
  lm_z :: real

text \<open>
  \<^verbatim>\<open>landmarks[i]\<close> is \<^verbatim>\<open>undefined\<close> outside the array, and reading a field of \<^verbatim>\<open>undefined\<close> throws
  a TypeError. Every array element read below is followed at once by a field access, so the
  functions work in the option monad: \<open>None\<close> is the thrown TypeError.
\<close>

definition js_nth :: "'a list \<Rightarrow> nat \<Rightarrow> 'a option" where
  "js_nth xs i = (if i < length xs then Some (xs ! i) else None)"

definition hypot :: "real \<Rightarrow> real \<Rightarrow> real" where
  "hypot a b = sqrt (a\<^sup>2 + b\<^sup>2)"

definition isFingerOpen :: "Landmark list \<Rightarrow> nat \<Rightarrow> nat \<Rightarrow> bool option" where
  "isFingerOpen landmarks tipIdx pipIdx =
     do { tip \<leftarrow> js_nth landmarks tipIdx;
          pip \<leftarrow> js_nth landmarks pipIdx;
          Some (lm_y tip < lm_y pip) }"

definition detectGesture :: "Landmark list \<Rightarrow> GestureType option" where
  "detectGesture landmarks =
     do { indexOpen \<leftarrow> isFingerOpen landmarks 8 6;
          middleOpen \<leftarrow> isFingerOpen landmarks 12 10;
          ringOpen \<leftarrow> isFingerOpen landmarks 16 14;
          pinkyOpen \<leftarrow> isFingerOpen landmarks 20 18;
          thumbTip \<leftarrow> js_nth landmarks 4;
          indexTip \<leftarrow> js_nth landmarks 8;
          let pinchDistance = hypot (lm_x thumbTip - lm_x indexTip) (lm_y thumbTip - lm_y indexTip);
          Some (if \<not> indexOpen \<and> \<not> middleOpen \<and> \<not> ringOpen \<and> \<not> pinkyOpen then FIST
                else if pinchDistance < 0.05 then PINCH
                else if (indexOpen \<and> middleOpen \<and> ringOpen) \<or> (middleOpen \<and> ringOpen \<and> pinkyOpen)
                  then OPEN
                else NONE) }"

text \<open>
  The state of the \<^verbatim>\<open>HandManager\<close> component that \<^verbatim>\<open>onResults\<close> writes.
\<close>

record HandManager =
  loading :: bool
  lastGestureRef :: GestureType

text \<open>
  \<^verbatim>\<open>onResults\<close>. Its argument is \<^verbatim>\<open>results.multiHandLandmarks\<close>: \<open>None\<close> when the field is
  missing, otherwise the array of detected hands. The callback \<^verbatim>\<open>onGestureDetected\<close> is a
  parameter, as in the component; it acts on the state \<open>st\<close> of whoever passed it. When a
  TypeError is thrown the result is \<open>None\<close> (the write of \<^verbatim>\<open>setLoading(false)\<close> before it is then
  not tracked).
\<close>

definition onResults ::
  "(GestureType \<Rightarrow> real \<Rightarrow> real \<Rightarrow> 'st \<Rightarrow> 'st) \<Rightarrow> Landmark list list option \<Rightarrow>
     HandManager \<times> 'st \<Rightarrow> (HandManager \<times> 'st) option" where
  "onResults onGestureDetected multiHandLandmarks = (\<lambda>(hm, st).
     (let hm1 = hm\<lparr>loading := False\<rparr>
      in case multiHandLandmarks of
           Some (landmarks # _) \<Rightarrow>
             do { wrist \<leftarrow> js_nth landmarks 0;
                  middleMcp \<leftarrow> js_nth landmarks 9;
                  let palmX = (lm_x wrist + lm_x middleMcp) / 2;
                  let palmY = (lm_y wrist + lm_y middleMcp) / 2;
                  let normalizedX = (0.5 - palmX) * 4;
                  let normalizedY = (0.5 - palmY) * 2;
                  gesture \<leftarrow> detectGesture landmarks;
                  Some (hm1\<lparr>lastGestureRef := gesture\<rparr>,
                        onGestureDetected gesture normalizedX normalizedY st) }
         | _ \<Rightarrow> Some (hm1, onGestureDetected NONE 0 0 st)))"

text \<open>
  The classification of section 4.1 of the specification, written from its words on a hand
  of 21 landmarks: a finger is open when its tip lies above its PIP joint, and the labels are
  tried in the order FIST, PINCH, OPEN, NONE.
\<close>

definition finger_open :: "Landmark list \<Rightarrow> nat \<Rightarrow> nat \<Rightarrow> bool" where
  "finger_open ls tip pip = (lm_y (ls ! tip) < lm_y (ls ! pip))"

definition pinch_distance :: "Landmark list \<Rightarrow> real" where
  "pinch_distance ls =
     sqrt ((lm_x (ls ! 4) - lm_x (ls ! 8))\<^sup>2 + (lm_y (ls ! 4) - lm_y (ls ! 8))\<^sup>2)"

definition classify_spec :: "Landmark list \<Rightarrow> GestureType" where
  "classify_spec ls =
     (if \<not> (finger_open ls 8 6 \<or> finger_open ls 12 10 \<or> finger_open ls 16 14 \<or> finger_open ls 20 18)
        then FIST
      else if pinch_distance ls < 0.05 then PINCH
      else if (finger_open ls 8 6 \<and> finger_open ls 12 10 \<and> finger_open ls 16 14) \<or>
              (finger_open ls 12 10 \<and> finger_open ls 16 14 \<and> finger_open ls 20 18) then OPEN
      else NONE)"

text \<open>
  Three hands of 21 landmarks used to instantiate the theorems: a hand whose landmarks all
  have the same height (no finger open), a hand with the four finger tips above their PIP
  joints and the thumb tip far from the index tip, and the same hand with the thumb tip on
  the index tip.
\<close>

definition flat_hand :: "Landmark list" where
  "flat_hand = replicate 21 \<lparr>lm_x = 1/2, lm_y = 1/2, lm_z = 0\<rparr>"

definition open_hand :: "Landmark list" where
  "open_hand = flat_hand
     [0 := \<lparr>lm_x = 1/4, lm_y = 3/4, lm_z = 0\<rparr>,
      4 := \<lparr>lm_x = 1, lm_y = 1/4, lm_z = 0\<rparr>,
      8 := \<lparr>lm_x = 0, lm_y = 1/4, lm_z = 0\<rparr>,
      12 := \<lparr>lm_x = 1/2, lm_y = 1/4, lm_z = 0\<rparr>,
      16 := \<lparr>lm_x = 1/2, lm_y = 1/4, lm_z = 0\<rparr>,
      20 := \<lparr>lm_x = 1/2, lm_y = 1/4, lm_z = 0\<rparr>]"

definition pinch_hand :: "Landmark list" where
  "pinch_hand = open_hand[4 := \<lparr>lm_x = 0, lm_y = 1/4, lm_z = 0\<rparr>]"

section \<open>The layout generator (Experience.tsx)\<close>

text \<open>
  \<^verbatim>\<open>CONFIG\<close> and \<^verbatim>\<open>COLORS\<close> are imported from \<^verbatim>\<open>../constants\<close>, which is not among the
  sources. The configuration is therefore a parameter of the generator: a record of the four
  fields the code reads. The colours are only stored, so each is a constructor named after
  its field of \<^verbatim>\<open>COLORS\<close>. The shape tags are the string literals the code assigns.
\<close>

record Config =
  TREE_HEIGHT :: real
  TREE_RADIUS_BOTTOM :: real
  SCATTER_RADIUS :: real
  PARTICLE_COUNT :: nat

datatype Color = METALLIC_GOLD | CHRISTMAS_RED | BRIGHT_GREEN | MATTE_GREEN | WHITE

datatype ParticleType = Sphere | Cube | Candy | Ring | Diamond

type_synonym vec3 = "real \<times> real \<times> real"

record ParticleData =
  p_id :: nat
  p_type :: ParticleType
  p_positionTree :: vec3
  p_positionScatter :: vec3
  p_color :: Color
  p_scale :: real

record PhotoData =
  ph_id :: string
  ph_url :: string
  ph_positionTree :: vec3
  ph_positionScatter :: vec3
  ph_rotation :: vec3
  ph_aspectRatio :: real

text \<open>
  \<^verbatim>\<open>Math.random()\<close>: the results of the successive calls are a sequence \<open>rnd\<close>, and the number
  of calls made so far is threaded through the generator. Each call returns the next element.
\<close>

definition Math_random :: "(nat \<Rightarrow> real) \<Rightarrow> nat \<Rightarrow> real \<times> nat" where
  "Math_random rnd k = (rnd k, Suc k)"

definition goldenAngle :: real where
  "goldenAngle = pi * (3 - sqrt 5)"

text \<open>
  The radius of the cone at height \<open>yTree\<close>, the source's \<^verbatim>\<open>maxRadiusAtY\<close> with its
  \<^verbatim>\<open>normalizedY\<close>. \<^verbatim>\<open>Math.pow(b, 0.9)\<close> is the real power for \<open>b \<ge> 0\<close>, which is where the loop
  uses it when the tree height is positive.
\<close>

definition maxRadiusAtY :: "Config \<Rightarrow> real \<Rightarrow> real" where
  "maxRadiusAtY cfg yTree =
     (let normalizedY = (yTree + TREE_HEIGHT cfg / 2) / TREE_HEIGHT cfg
      in TREE_RADIUS_BOTTOM cfg * ((1 - normalizedY) powr 0.9) + 0.2)"

text \<open>
  The body of the ornament loop for index \<open>i\<close>, started after \<open>k0\<close> calls of
  \<^verbatim>\<open>Math.random\<close>; it returns the particle pushed and the number of calls made after it.
  \<^verbatim>\<open>Math.cbrt\<close> is the real cube root, \<^verbatim>\<open>Math.acos\<close> the arc cosine on \<open>[-1, 1]\<close>.
\<close>

definition ornament :: "Config \<Rightarrow> (nat \<Rightarrow> real) \<Rightarrow> nat \<Rightarrow> nat \<Rightarrow> ParticleData \<times> nat" where
  "ornament cfg rnd i k0 =
     (let t = real i / real (PARTICLE_COUNT cfg);
          yTree = TREE_HEIGHT cfg * (t - 0.5);
          maxR = maxRadiusAtY cfg yTree;
          theta = real i * goldenAngle;
          (r1, k1) = Math_random rnd k0;
          isSurface = (r1 > 0.25);
          (r2, k2) = Math_random rnd k1;
          rScale = (if isSurface then 0.9 + r2 * 0.25 else r2 * 0.8);
          rCurrent = maxR * rScale;
          xTree = cos theta * rCurrent;
          zTree = sin theta * rCurrent;
          (r3, k3) = Math_random rnd k2;
          rScatter = SCATTER_RADIUS cfg * root 3 r3;
          (r4, k4) = Math_random rnd k3;
          thetaScatter = r4 * 2 * pi;
          (r5, k5) = Math_random rnd k4;
          phiScatter = arccos (2 * r5 - 1);
          xScatter = rScatter * sin phiScatter * cos thetaScatter;
          yScatter = rScatter * sin phiScatter * sin thetaScatter;
          zScatter = rScatter * cos phiScatter;
          (randShape, k6) = Math_random rnd k5;
          (type, k7) =
             (if isSurface then
                ((if randShape > 0.92 then Diamond
                  else if randShape > 0.84 then Ring
                  else if randShape > 0.6 then Sphere
                  else Cube), k6)
              else (let (r7, k) = Math_random rnd k6
                    in ((if r7 > 0.5 then Sphere else Candy), k)));
          (randColor, k8) = Math_random rnd k7;
          (color, k9) =
             (if type = Diamond \<or> type = Ring then (METALLIC_GOLD, k8)
              else (let c = (if randColor > 0.75 then METALLIC_GOLD
                             else if randColor > 0.55 then CHRISTMAS_RED
                             else if randColor > 0.25 then BRIGHT_GREEN
                             else MATTE_GREEN);
                        (r9, k) = Math_random rnd k8
                    in ((if r9 > 0.95 then WHITE else c), k)));
          (r10, k10) = Math_random rnd k9
      in (\<lparr>p_id = i, p_type = type,
            p_positionTree = (xTree, yTree, zTree),
            p_positionScatter = (xScatter, yScatter, zScatter),
            p_color = color,
            p_scale = r10 * 0.2 + 0.08\<rparr>, k10))"

text \<open>
  The loop \<^verbatim>\<open>for (let i = 0; i < count; i++)\<close>, pushing each particle on \<^verbatim>\<open>tempParticles\<close>.
\<close>

definition generateParticles :: "Config \<Rightarrow> (nat \<Rightarrow> real) \<Rightarrow> nat \<Rightarrow> ParticleData list \<times> nat" where
  "generateParticles cfg rnd k0 =
     fold (\<lambda>i (tempParticles, k).
             let (p, k') = ornament cfg rnd i k in (tempParticles @ [p], k'))
          [0..<PARTICLE_COUNT cfg] ([], k0)"

text \<open>
  The decimal digits of an index, for the template string \<^verbatim>\<open>`photo-${i}`\<close>.
\<close>

fun string_of_nat :: "nat \<Rightarrow> string" where
  "string_of_nat n =
     (if n < 10 then [char_of (48 + n)]
      else string_of_nat (n div 10) @ [char_of (48 + n mod 10)])"

text \<open>
  The body of \<^verbatim>\<open>photos.forEach((photoUrl, i) => ...)\<close>; \<open>len\<close> is \<^verbatim>\<open>photos.length\<close>, which is
  positive whenever the body runs.
\<close>

definition photoPosition ::
  "Config \<Rightarrow> (nat \<Rightarrow> real) \<Rightarrow> nat \<Rightarrow> string \<Rightarrow> nat \<Rightarrow> nat \<Rightarrow> PhotoData \<times> nat" where
  "photoPosition cfg rnd len photoUrl i k0 =
     (let theta = (real i / real len) * pi * 8;
          yTree = (real i / real len - 0.5) * TREE_HEIGHT cfg * 0.7;
          normalizedY = (yTree + TREE_HEIGHT cfg / 2) / TREE_HEIGHT cfg;
          radiusAtY = (TREE_RADIUS_BOTTOM cfg + 1.2) * (1 - normalizedY) + 0.5;
          xTree = cos theta * radiusAtY;
          zTree = sin theta * radiusAtY;
          (r1, k1) = Math_random rnd k0;
          xScatter = (r1 - 0.5) * 16;
          (r2, k2) = Math_random rnd k1;
          yScatter = (r2 - 0.5) * 12;
          (r3, k3) = Math_random rnd k2;
          zScatter = (r3 - 0.5) * 8;
          (r4, k4) = Math_random rnd k3
      in (\<lparr>ph_id = ''photo-'' @ string_of_nat i, ph_url = photoUrl,
            ph_positionTree = (xTree, yTree, zTree),
            ph_positionScatter = (xScatter, yScatter, zScatter),
            ph_rotation = (0, r4 * 0.5, 0),
            ph_aspectRatio = 1\<rparr>, k4))"

definition generatePhotoPositions ::
  "Config \<Rightarrow> (nat \<Rightarrow> real) \<Rightarrow> string list \<Rightarrow> nat \<Rightarrow> PhotoData list \<times> nat" where
  "generatePhotoPositions cfg rnd photoUrls k0 =
     fold (\<lambda>(i, photoUrl) (tempPhotoPositions, k).
             let (p, k') = photoPosition cfg rnd (length photoUrls) photoUrl i k
             in (tempPhotoPositions @ [p], k'))
          (enumerate 0 photoUrls) ([], k0)"

text \<open>
  The value computed by the \<^verbatim>\<open>useMemo\<close> of \<^verbatim>\<open>Experience\<close>: first the ornaments, then the
  photos.
\<close>

record Layout =
  particles :: "ParticleData list"
  photoPositions :: "PhotoData list"

definition generateLayout :: "Config \<Rightarrow> (nat \<Rightarrow> real) \<Rightarrow> string list \<Rightarrow> nat \<Rightarrow> Layout \<times> nat" where
  "generateLayout cfg rnd photoUrls k0 =
     (let (tempParticles, k1) = generateParticles cfg rnd k0;
          (tempPhotoPositions, k2) = generatePhotoPositions cfg rnd photoUrls k1
      in (\<lparr>particles = tempParticles, photoPositions = tempPhotoPositions\<rparr>, k2))"

text \<open>
  \<^verbatim>\<open>useMemo(..., [photos])\<close> keeps the dependency array of the last computation and its
  value, and computes again only when \<^verbatim>\<open>photos\<close> is another array than the stored one. The
  program replaces the array only in \<^verbatim>\<open>setPhotos\<close>, by one of another length, so here the
  arrays are compared by their contents. A world is the state of \<^verbatim>\<open>App\<close>, the memo cell of
  \<^verbatim>\<open>Experience\<close> (\<open>None\<close> before the first render) and the number of calls of
  \<^verbatim>\<open>Math.random\<close> made so far.
\<close>

record Memo =
  memo_deps :: "string list"
  memo_value :: Layout

record World =
  app :: App
  layoutMemo :: "Memo option"
  randomCalls :: nat

definition recompute :: "Config \<Rightarrow> (nat \<Rightarrow> real) \<Rightarrow> World \<Rightarrow> World" where
  "recompute cfg rnd w =
     (let (v, k) = generateLayout cfg rnd (photos (app w)) (randomCalls w)
      in w\<lparr>layoutMemo := Some \<lparr>memo_deps = photos (app w), memo_value = v\<rparr>,
            randomCalls := k\<rparr>)"

definition useMemo :: "Config \<Rightarrow> (nat \<Rightarrow> real) \<Rightarrow> World \<Rightarrow> World" where
  "useMemo cfg rnd w =
     (case layoutMemo w of
        None \<Rightarrow> recompute cfg rnd w
      | Some m \<Rightarrow> if memo_deps m = photos (app w) then w else recompute cfg rnd w)"

text \<open>
  Processing one gesture sample: the handler of \<^verbatim>\<open>App\<close> runs, and the state change renders
  \<^verbatim>\<open>Experience\<close> again, which runs its \<^verbatim>\<open>useMemo\<close>.
\<close>

definition processGesture ::
  "Config \<Rightarrow> (nat \<Rightarrow> real) \<Rightarrow> GestureType \<Rightarrow> real \<Rightarrow> real \<Rightarrow> World \<Rightarrow> World" where
  "processGesture cfg rnd gesture handX handY w =
     useMemo cfg rnd (w\<lparr>app := handleGestureDetected gesture handX handY (app w)\<rparr>)"

text \<open>
  The measures of the layout claims: the distance of a point from the origin, and its
  horizontal distance from the axis of the tree (the \<open>y\<close> axis).
\<close>

fun norm3 :: "vec3 \<Rightarrow> real" where
  "norm3 (x, y, z) = sqrt (x\<^sup>2 + y\<^sup>2 + z\<^sup>2)"

fun horizontal_radius :: "vec3 \<Rightarrow> real" where
  "horizontal_radius (x, y, z) = sqrt (x\<^sup>2 + z\<^sup>2)"

fun height :: "vec3 \<Rightarrow> real" where
  "height (x, y, z) = y"

text \<open>
  A configuration and two sequences of random draws used to instantiate the theorems.
\<close>

definition config0 :: Config where
  "config0 = \<lparr>TREE_HEIGHT = 12, TREE_RADIUS_BOTTOM = 4, SCATTER_RADIUS = 15, PARTICLE_COUNT = 1\<rparr>"

definition draws_half :: "nat \<Rightarrow> real" where
  "draws_half k = 1/2"

definition draws_high :: "nat \<Rightarrow> real" where
  "draws_high k = 9/10"

section \<open>Properties of the state machine\<close>

text \<open>
  C1. Whatever the current display state, the photo collection (and so the photo count) and
  the hand coordinates, the gesture FIST leaves the application in display state TREE.
\<close>

theorem fist_yields_tree:
  "appState (handleGestureDetected FIST handX handY s) = TREE"
  by (simp add: handleGestureDetected_def Let_def)

lemma enumerate_filter_above:
  "filter (\<lambda>(j, x). j \<noteq> n) (enumerate (Suc n) xs) = enumerate (Suc n) xs"
  by (rule filter_True) (auto simp: in_set_enumerate_eq)

lemma enumerate_drop_index:
  "map snd (filter (\<lambda>(j, x). j \<noteq> n + i) (enumerate n xs)) = take i xs @ drop (Suc i) xs"
proof (induction xs arbitrary: n i)
  case Nil
  show ?case by simp
next
  case (Cons a xs)
  show ?case
  proof (cases i)
    case 0
    then show ?thesis by (simp add: enumerate_filter_above)
  next
    case (Suc i')
    with Cons.IH [of "Suc n" i'] show ?thesis by simp
  qed
qed

lemma filter_with_index_drop:
  "filter_with_index (\<lambda>_ j. j \<noteq> i) xs = take i xs @ drop (Suc i) xs"
  using enumerate_drop_index [of 0 i xs] by (simp add: filter_with_index_def)

lemma filter_with_index_first:
  "filter_with_index (\<lambda>_ j. 0 < j) (x # xs) = xs"
  using filter_with_index_drop [of 0 "x # xs"] by simp

text \<open>
  C4. On the gesture OPEN, a display state other than SCATTER becomes SCATTER and the focused
  index becomes null; in display state SCATTER both the display state and the focused index
  stay as they are.
\<close>

theorem open_scatters_and_clears_focus:
  "(appState s \<noteq> SCATTER \<longrightarrow>
      appState (handleGestureDetected OPEN handX handY s) = SCATTER \<and>
      focusedPhotoIndex (handleGestureDetected OPEN handX handY s) = None) \<and>
   (appState s = SCATTER \<longrightarrow>
      appState (handleGestureDetected OPEN handX handY s) = appState s \<and>
      focusedPhotoIndex (handleGestureDetected OPEN handX handY s) = focusedPhotoIndex s)"
  by (simp add: handleGestureDetected_def Let_def)

theorem open_scatters_and_clears_focus_witness:
  "appState initial \<noteq> SCATTER \<and>
   appState (handleGestureDetected OPEN 0 0 initial) = SCATTER \<and>
   focusedPhotoIndex (handleGestureDetected OPEN 0 0 initial) = None \<and>
   appState (initial\<lparr>appState := SCATTER, focusedPhotoIndex := Some (Idx 2)\<rparr>) = SCATTER \<and>
   appState (handleGestureDetected OPEN 0 0
      (initial\<lparr>appState := SCATTER, focusedPhotoIndex := Some (Idx 2)\<rparr>)) = SCATTER \<and>
   focusedPhotoIndex (handleGestureDetected OPEN 0 0
      (initial\<lparr>appState := SCATTER, focusedPhotoIndex := Some (Idx 2)\<rparr>)) = Some (Idx 2)"
  using open_scatters_and_clears_focus [of initial 0 0]
    open_scatters_and_clears_focus
      [of "initial\<lparr>appState := SCATTER, focusedPhotoIndex := Some (Idx 2)\<rparr>" 0 0]
  by (simp add: initial_def)

text \<open>
  C5. On the gesture PINCH in display state SCATTER with at least one photo, the display state
  becomes FOCUS and the focused index advances cyclically: null becomes 0, an index \<open>k\<close>
  becomes \<open>(k + 1) mod n\<close> for the photo count \<open>n\<close>. In display states TREE and FOCUS a PINCH
  changes neither the display state nor the focused index; so a second PINCH right after the
  first one finds the state FOCUS and does not advance the index again.
\<close>

theorem pinch_focuses_cyclically:
  "(appState s = SCATTER \<and> 1 \<le> length (photos s) \<longrightarrow>
      appState (handleGestureDetected PINCH handX handY s) = FOCUS \<and>
      (focusedPhotoIndex s = None \<longrightarrow>
         focusedPhotoIndex (handleGestureDetected PINCH handX handY s) = Some (Idx 0)) \<and>
      (\<forall>k. focusedPhotoIndex s = Some (Idx k) \<longrightarrow>
         focusedPhotoIndex (handleGestureDetected PINCH handX handY s)
           = Some (Idx ((k + 1) mod length (photos s)))) \<and>
      appState (handleGestureDetected PINCH handX' handY'
                  (handleGestureDetected PINCH handX handY s)) = FOCUS \<and>
      focusedPhotoIndex (handleGestureDetected PINCH handX' handY'
                  (handleGestureDetected PINCH handX handY s))
        = focusedPhotoIndex (handleGestureDetected PINCH handX handY s)) \<and>
   (appState s = TREE \<or> appState s = FOCUS \<longrightarrow>
      appState (handleGestureDetected PINCH handX handY s) = appState s \<and>
      focusedPhotoIndex (handleGestureDetected PINCH handX handY s) = focusedPhotoIndex s)"
  by (auto simp add: handleGestureDetected_def Let_def)

theorem pinch_focuses_cyclically_witness:
  "appState (handleGestureDetected PINCH 0 0 (initial\<lparr>appState := SCATTER\<rparr>)) = FOCUS \<and>
   focusedPhotoIndex (handleGestureDetected PINCH 0 0 (initial\<lparr>appState := SCATTER\<rparr>))
     = Some (Idx 0) \<and>
   focusedPhotoIndex (handleGestureDetected PINCH 0 0
      (initial\<lparr>appState := SCATTER, focusedPhotoIndex := Some (Idx 3)\<rparr>)) = Some (Idx 0) \<and>
   focusedPhotoIndex (handleGestureDetected PINCH 1 1
      (handleGestureDetected PINCH 0 0 (initial\<lparr>appState := SCATTER\<rparr>))) = Some (Idx 0) \<and>
   appState (handleGestureDetected PINCH 0 0 initial) = TREE \<and>
   focusedPhotoIndex (handleGestureDetected PINCH 0 0 initial) = None"
  using pinch_focuses_cyclically [of "initial\<lparr>appState := SCATTER\<rparr>" 0 0 1 1]
    pinch_focuses_cyclically
      [of "initial\<lparr>appState := SCATTER, focusedPhotoIndex := Some (Idx 3)\<rparr>" 0 0 1 1]
    pinch_focuses_cyclically [of initial 0 0 1 1]
  by (simp add: initial_def DEFAULT_PHOTOS_def)

text \<open>
  Removal where it is well defined. When the focused index names a photo of the collection,
  \<^verbatim>\<open>handleRemovePhoto\<close> succeeds, deletes exactly the photo at that index (the photos before
  it and after it stay, in their order), sets the focused index to null and the display state
  to SCATTER. When the focused index is null it does not throw and returns the state it was
  given.
\<close>

lemma remove_photo_at_valid_index:
  "(focusedPhotoIndex s = Some (Idx i) \<and> i < length (photos s) \<longrightarrow>
      (\<exists>s'. handleRemovePhoto s = Some s' \<and>
            photos s' = take i (photos s) @ drop (Suc i) (photos s) \<and>
            focusedPhotoIndex s' = None \<and> appState s' = SCATTER)) \<and>
   (focusedPhotoIndex s = None \<longrightarrow> handleRemovePhoto s = Some s)"
  by (simp add: handleRemovePhoto_def Let_def filter_with_index_drop)

lemma step_focus_inv:
  assumes "focus_inv s" and "step e s = Some s'"
  shows "focus_inv s'"
proof (cases e)
  case (GestureSample gesture handX handY)
  with assms show ?thesis
    by (cases gesture; cases "appState s")
       (auto simp: focus_inv_def handleGestureDetected_def Let_def)
next
  case (FileUpload chosen)
  with assms show ?thesis
    by (auto simp: focus_inv_def handlePhotoUpload_def split: option.splits)
next
  case RemoveClick
  with assms show ?thesis
    by (auto simp: focus_inv_def handleRemovePhoto_def Let_def
             split: if_splits option.splits)
qed

lemma run_focus_inv:
  "focus_inv s \<Longrightarrow> run es s = Some s' \<Longrightarrow> focus_inv s'"
proof (induction es arbitrary: s)
  case Nil
  then show ?case by simp
next
  case (Cons e es)
  then show ?case
    by (auto split: option.splits dest: step_focus_inv)
qed

lemma initial_focus_inv: "focus_inv initial"
  by (simp add: focus_inv_def initial_def)

text \<open>
  The photo collection can be emptied: after OPEN, each PINCH focuses photo 0 and the remove
  button deletes it. A PINCH on the empty collection then enters FOCUS with index 0, the
  remove button is shown, and a click on it throws.
\<close>

lemma empty_collection_reachable:
  "run [GestureSample OPEN 0 0,
        GestureSample PINCH 0 0, RemoveClick, GestureSample PINCH 0 0, RemoveClick,
        GestureSample PINCH 0 0, RemoveClick, GestureSample PINCH 0 0, RemoveClick] initial
     = Some (initial\<lparr>appState := SCATTER, currentGesture := PINCH, photos := []\<rparr>)"
  by (simp add: initial_def DEFAULT_PHOTOS_def handleGestureDetected_def handleRemovePhoto_def
        isFocusMode_def filter_with_index_first)

lemma remove_click_on_empty_collection_throws:
  "run [GestureSample PINCH 0 0, RemoveClick]
     (initial\<lparr>appState := SCATTER, currentGesture := PINCH, photos := []\<rparr>) = None"
  by (simp add: initial_def handleGestureDetected_def handleRemovePhoto_def isFocusMode_def)

text \<open>
  C8 (evaluation of the code). From the initial state, OPEN followed by four rounds of PINCH
  and a click on the remove button empties the photo collection; one more PINCH leaves the
  application in display state FOCUS with the focused index \<open>0\<close> and no photo. The focused
  index is not null and the remove button is rendered, but \<^verbatim>\<open>handleRemovePhoto\<close> neither
  removes a photo nor does nothing: \<^verbatim>\<open>photos[0].startsWith\<close> throws a TypeError.
\<close>

theorem remove_without_photo_throws:
  "run [GestureSample OPEN 0 0,
        GestureSample PINCH 0 0, RemoveClick, GestureSample PINCH 0 0, RemoveClick,
        GestureSample PINCH 0 0, RemoveClick, GestureSample PINCH 0 0, RemoveClick,
        GestureSample PINCH 0 0] initial
     = Some (initial\<lparr>appState := FOCUS, currentGesture := PINCH, photos := [],
                     focusedPhotoIndex := Some (Idx 0)\<rparr>) \<and>
   isFocusMode (initial\<lparr>appState := FOCUS, currentGesture := PINCH, photos := [],
                       focusedPhotoIndex := Some (Idx 0)\<rparr>) \<and>
   handleRemovePhoto (initial\<lparr>appState := FOCUS, currentGesture := PINCH, photos := [],
                              focusedPhotoIndex := Some (Idx 0)\<rparr>) = None"
  by (simp add: initial_def DEFAULT_PHOTOS_def handleGestureDetected_def handleRemovePhoto_def
        isFocusMode_def filter_with_index_first)

text \<open>
  C2 (evaluation of the code). From the initial state, OPEN, PINCH and FIST lead to display
  state TREE with the focused index still \<open>0\<close>: the FIST branch sets the display state only.
\<close>

theorem fist_from_focus_keeps_focus_index:
  "run [GestureSample OPEN 0 0, GestureSample PINCH 0 0, GestureSample FIST 0 0] initial
     = Some (initial\<lparr>appState := TREE, currentGesture := FIST,
                     focusedPhotoIndex := Some (Idx 0)\<rparr>)"
  by (simp add: initial_def handleGestureDetected_def)

text \<open>
  C3 (evaluation of the code). In display state SCATTER with an empty photo collection and a
  null focused index, PINCH sets the display state to FOCUS and the focused index to \<open>0\<close>;
  with a focused index that is a number, the remainder by the length zero makes it \<open>NaN\<close>.
\<close>

theorem pinch_without_photos_enters_focus:
  "handleGestureDetected PINCH 0 0 (initial\<lparr>appState := SCATTER, photos := []\<rparr>)
     = initial\<lparr>appState := FOCUS, currentGesture := PINCH, photos := [],
               focusedPhotoIndex := Some (Idx 0)\<rparr> \<and>
   handleGestureDetected PINCH 0 0
       (initial\<lparr>appState := SCATTER, photos := [], focusedPhotoIndex := Some (Idx 0)\<rparr>)
     = initial\<lparr>appState := FOCUS, currentGesture := PINCH, photos := [],
               focusedPhotoIndex := Some NaN\<rparr>"
  by (simp add: initial_def handleGestureDetected_def)

section \<open>Properties of the gesture classifier\<close>

lemma js_nth_in_range: "i < length xs \<Longrightarrow> js_nth xs i = Some (xs ! i)"
  by (simp add: js_nth_def)

lemma isFingerOpen_in_range:
  "tip < length ls \<Longrightarrow> pip < length ls \<Longrightarrow>
   isFingerOpen ls tip pip = Some (lm_y (ls ! tip) < lm_y (ls ! pip))"
  by (simp add: isFingerOpen_def js_nth_in_range)

lemma detectGesture_value:
  assumes "length ls = 21"
  shows "detectGesture ls =
     Some (if \<not> lm_y (ls ! 8) < lm_y (ls ! 6) \<and> \<not> lm_y (ls ! 12) < lm_y (ls ! 10) \<and>
              \<not> lm_y (ls ! 16) < lm_y (ls ! 14) \<and> \<not> lm_y (ls ! 20) < lm_y (ls ! 18) then FIST
           else if hypot (lm_x (ls ! 4) - lm_x (ls ! 8)) (lm_y (ls ! 4) - lm_y (ls ! 8)) < 0.05
             then PINCH
           else if (lm_y (ls ! 8) < lm_y (ls ! 6) \<and> lm_y (ls ! 12) < lm_y (ls ! 10) \<and>
                    lm_y (ls ! 16) < lm_y (ls ! 14)) \<or>
                   (lm_y (ls ! 12) < lm_y (ls ! 10) \<and> lm_y (ls ! 16) < lm_y (ls ! 14) \<and>
                    lm_y (ls ! 20) < lm_y (ls ! 18)) then OPEN
           else NONE)"
  using assms
  by (simp add: detectGesture_def isFingerOpen_in_range js_nth_in_range Let_def)

lemma hands_length:
  "length flat_hand = 21" "length open_hand = 21" "length pinch_hand = 21"
  by (simp_all add: flat_hand_def open_hand_def pinch_hand_def)

text \<open>
  C6. On every array of 21 landmarks the classifier returns (it does not throw) the label of
  the priority scheme: FIST when none of the four fingers is open, else PINCH when the
  distance of thumb tip and index tip is below 0.05, else OPEN when index, middle and ring
  or middle, ring and pinky are open, else NONE; a finger being open when its tip's \<open>y\<close> is
  strictly less than its PIP joint's. In particular a hand with all four fingers open and
  the thumb not within 0.05 of the index tip is OPEN, a hand with no finger open is FIST, and
  a hand with all four fingers open and the thumb within 0.05 of the index tip is PINCH.
\<close>

theorem detectGesture_priority:
  assumes "length ls = 21"
  shows "detectGesture ls = Some (classify_spec ls) \<and>
     (finger_open ls 8 6 \<and> finger_open ls 12 10 \<and> finger_open ls 16 14 \<and> finger_open ls 20 18 \<and>
        \<not> pinch_distance ls < 0.05 \<longrightarrow> detectGesture ls = Some OPEN) \<and>
     (\<not> finger_open ls 8 6 \<and> \<not> finger_open ls 12 10 \<and> \<not> finger_open ls 16 14 \<and>
        \<not> finger_open ls 20 18 \<longrightarrow> detectGesture ls = Some FIST) \<and>
     (finger_open ls 8 6 \<and> finger_open ls 12 10 \<and> finger_open ls 16 14 \<and> finger_open ls 20 18 \<and>
        pinch_distance ls < 0.05 \<longrightarrow> detectGesture ls = Some PINCH)"
proof -
  have "detectGesture ls = Some (classify_spec ls)"
    unfolding detectGesture_value [OF assms]
    by (simp add: classify_spec_def finger_open_def pinch_distance_def hypot_def)
  then show ?thesis
    by (simp add: classify_spec_def)
qed

theorem detectGesture_priority_witness:
  "length open_hand = 21 \<and> length flat_hand = 21 \<and> length pinch_hand = 21 \<and>
   detectGesture open_hand = Some OPEN \<and> detectGesture flat_hand = Some FIST \<and>
   detectGesture pinch_hand = Some PINCH"
  using detectGesture_priority [of open_hand] detectGesture_priority [of flat_hand]
    detectGesture_priority [of pinch_hand]
  by (simp add: flat_hand_def open_hand_def pinch_hand_def classify_spec_def finger_open_def
        pinch_distance_def)


text \<open>
  C7. On a frame with a detected hand (of 21 landmarks) \<^verbatim>\<open>onResults\<close> calls the callback with
  the label of the classifier and the position \<open>((0.5 - palmX) * 4, (0.5 - palmY) * 2)\<close>, where
  \<open>(palmX, palmY)\<close> is the midpoint of landmarks 0 and 9. On a frame without a hand (the
  field is missing or the array of hands is empty) it calls the callback with NONE and the
  position \<open>(0, 0)\<close>.
\<close>

theorem onResults_reports_position:
  "(length landmarks = 21 \<longrightarrow>
      (\<exists>gesture. detectGesture landmarks = Some gesture \<and>
         onResults onGestureDetected (Some (landmarks # others)) (hm, st) =
           Some (hm\<lparr>loading := False, lastGestureRef := gesture\<rparr>,
                 onGestureDetected gesture
                   ((0.5 - (lm_x (landmarks ! 0) + lm_x (landmarks ! 9)) / 2) * 4)
                   ((0.5 - (lm_y (landmarks ! 0) + lm_y (landmarks ! 9)) / 2) * 2) st))) \<and>
   onResults onGestureDetected None (hm, st) =
     Some (hm\<lparr>loading := False\<rparr>, onGestureDetected NONE 0 0 st) \<and>
   onResults onGestureDetected (Some []) (hm, st) =
     Some (hm\<lparr>loading := False\<rparr>, onGestureDetected NONE 0 0 st)"
proof -
  have hand: "\<exists>gesture. detectGesture landmarks = Some gesture \<and>
         onResults onGestureDetected (Some (landmarks # others)) (hm, st) =
           Some (hm\<lparr>loading := False, lastGestureRef := gesture\<rparr>,
                 onGestureDetected gesture
                   ((0.5 - (lm_x (landmarks ! 0) + lm_x (landmarks ! 9)) / 2) * 4)
                   ((0.5 - (lm_y (landmarks ! 0) + lm_y (landmarks ! 9)) / 2) * 2) st)"
    if len: "length landmarks = 21"
  proof -
    from detectGesture_value [OF len] obtain gesture
      where g: "detectGesture landmarks = Some gesture" by blast
    have "onResults onGestureDetected (Some (landmarks # others)) (hm, st) =
           Some (hm\<lparr>loading := False, lastGestureRef := gesture\<rparr>,
                 onGestureDetected gesture
                   ((0.5 - (lm_x (landmarks ! 0) + lm_x (landmarks ! 9)) / 2) * 4)
                   ((0.5 - (lm_y (landmarks ! 0) + lm_y (landmarks ! 9)) / 2) * 2) st)"
      using len g by (simp add: onResults_def js_nth_in_range)
    with g show ?thesis by blast
  qed
  have none: "onResults onGestureDetected None (hm, st) =
      Some (hm\<lparr>loading := False\<rparr>, onGestureDetected NONE 0 0 st)"
    by (simp add: onResults_def)
  have empty: "onResults onGestureDetected (Some []) (hm, st) =
      Some (hm\<lparr>loading := False\<rparr>, onGestureDetected NONE 0 0 st)"
    by (simp add: onResults_def)
  from hand none empty show ?thesis by blast
qed

theorem onResults_reports_position_witness:
  "length open_hand = 21 \<and>
   onResults handleGestureDetected (Some [open_hand])
       (\<lparr>loading = True, lastGestureRef = NONE\<rparr>, initial) =
     Some (\<lparr>loading = False, lastGestureRef = OPEN\<rparr>,
           handleGestureDetected OPEN (1/2) (-1/4) initial) \<and>
   onResults handleGestureDetected None (\<lparr>loading = True, lastGestureRef = NONE\<rparr>, initial) =
     Some (\<lparr>loading = False, lastGestureRef = NONE\<rparr>, handleGestureDetected NONE 0 0 initial)"
proof -
  have g: "detectGesture open_hand = Some OPEN"
    by (simp add: detectGesture_value hands_length open_hand_def flat_hand_def hypot_def)
  have p: "lm_x (open_hand ! 0) = 1/4" "lm_x (open_hand ! 9) = 1/2"
    "lm_y (open_hand ! 0) = 3/4" "lm_y (open_hand ! 9) = 1/2"
    by (simp_all add: open_hand_def flat_hand_def)
  show ?thesis
    using onResults_reports_position
      [of open_hand handleGestureDetected "[]" "\<lparr>loading = True, lastGestureRef = NONE\<rparr>" initial]
    by (simp add: g p hands_length)
qed
section \<open>Properties of the layout generator\<close>

lemma ornament_positionTree:
  "p_positionTree (fst (ornament cfg rnd i k)) =
     (cos (real i * goldenAngle) *
        (maxRadiusAtY cfg (TREE_HEIGHT cfg * (real i / real (PARTICLE_COUNT cfg) - 0.5)) *
         (if rnd k > 0.25 then 0.9 + rnd (Suc k) * 0.25 else rnd (Suc k) * 0.8)),
      TREE_HEIGHT cfg * (real i / real (PARTICLE_COUNT cfg) - 0.5),
      sin (real i * goldenAngle) *
        (maxRadiusAtY cfg (TREE_HEIGHT cfg * (real i / real (PARTICLE_COUNT cfg) - 0.5)) *
         (if rnd k > 0.25 then 0.9 + rnd (Suc k) * 0.25 else rnd (Suc k) * 0.8)))"
  by (simp add: ornament_def Math_random_def Let_def split_def)

lemma ornament_positionScatter:
  "p_positionScatter (fst (ornament cfg rnd i k)) =
     (SCATTER_RADIUS cfg * root 3 (rnd (k + 2)) * sin (arccos (2 * rnd (k + 4) - 1))
        * cos (rnd (k + 3) * 2 * pi),
      SCATTER_RADIUS cfg * root 3 (rnd (k + 2)) * sin (arccos (2 * rnd (k + 4) - 1))
        * sin (rnd (k + 3) * 2 * pi),
      SCATTER_RADIUS cfg * root 3 (rnd (k + 2)) * cos (arccos (2 * rnd (k + 4) - 1)))"
  by (simp add: ornament_def Math_random_def Let_def split_def numeral_2_eq_2 numeral_3_eq_3 eval_nat_numeral)

lemma horizontal_radius_polar:
  "horizontal_radius (cos a * r, y, sin a * r) = \<bar>r\<bar>"
proof -
  have "(cos a * r)\<^sup>2 + (sin a * r)\<^sup>2 = r\<^sup>2 * ((cos a)\<^sup>2 + (sin a)\<^sup>2)"
    by algebra
  also have "\<dots> = r\<^sup>2" by simp
  finally show ?thesis by simp
qed

lemma norm3_spherical:
  "norm3 (r * sin p * cos a, r * sin p * sin a, r * cos p) = \<bar>r\<bar>"
proof -
  have "(r * sin p * cos a)\<^sup>2 + (r * sin p * sin a)\<^sup>2 + (r * cos p)\<^sup>2
      = r\<^sup>2 * ((sin p)\<^sup>2 * ((cos a)\<^sup>2 + (sin a)\<^sup>2) + (cos p)\<^sup>2)"
    by algebra
  also have "\<dots> = r\<^sup>2" by simp
  finally show ?thesis by simp
qed

lemma maxRadiusAtY_lower:
  "0 \<le> TREE_RADIUS_BOTTOM cfg \<Longrightarrow> 0.2 \<le> maxRadiusAtY cfg y"
  by (simp add: maxRadiusAtY_def Let_def)

lemma cbrt_unit: "0 \<le> u \<Longrightarrow> u < 1 \<Longrightarrow> 0 \<le> root 3 u \<and> root 3 u \<le> 1"
  by simp

lemma ornament_scatter_bound:
  assumes "\<forall>k. 0 \<le> rnd k \<and> rnd k < 1" and "0 \<le> SCATTER_RADIUS cfg"
  shows "norm3 (p_positionScatter (fst (ornament cfg rnd i k))) \<le> SCATTER_RADIUS cfg"
proof -
  from assms(1) have "0 \<le> rnd (k + 2)" and "rnd (k + 2) < 1" by simp_all
  then have u: "0 \<le> root 3 (rnd (k + 2))" "root 3 (rnd (k + 2)) \<le> 1"
    using cbrt_unit by simp_all
  have "norm3 (p_positionScatter (fst (ornament cfg rnd i k)))
      = \<bar>SCATTER_RADIUS cfg * root 3 (rnd (k + 2))\<bar>"
    unfolding ornament_positionScatter by (rule norm3_spherical)
  also have "\<dots> = SCATTER_RADIUS cfg * root 3 (rnd (k + 2))"
    using assms(2) u(1) by simp
  also have "\<dots> \<le> SCATTER_RADIUS cfg * 1"
    using assms(2) u(2) by (rule mult_left_mono [rotated])
  finally show ?thesis by simp
qed

lemma ornament_tree_radius:
  "horizontal_radius (p_positionTree (fst (ornament cfg rnd i k))) =
     \<bar>maxRadiusAtY cfg (height (p_positionTree (fst (ornament cfg rnd i k)))) *
       (if rnd k > 0.25 then 0.9 + rnd (Suc k) * 0.25 else rnd (Suc k) * 0.8)\<bar>"
  unfolding ornament_positionTree by (simp only: horizontal_radius_polar height.simps)

lemma ornament_tree_bound:
  assumes "\<forall>k. 0 \<le> rnd k \<and> rnd k < 1" and "0 \<le> TREE_RADIUS_BOTTOM cfg"
  shows "horizontal_radius (p_positionTree (fst (ornament cfg rnd i k)))
           \<le> 1.15 * maxRadiusAtY cfg (height (p_positionTree (fst (ornament cfg rnd i k))))"
proof -
  define m where "m = maxRadiusAtY cfg (height (p_positionTree (fst (ornament cfg rnd i k))))"
  define c where "c = (if rnd k > 0.25 then 0.9 + rnd (Suc k) * 0.25 else rnd (Suc k) * 0.8)"
  from assms(1) have "0 \<le> rnd (Suc k)" and "rnd (Suc k) < 1" by simp_all
  then have c: "0 \<le> c" "c \<le> 1.15" by (simp_all add: c_def)
  have "0.2 \<le> m" unfolding m_def using assms(2) by (rule maxRadiusAtY_lower)
  then have m: "0 \<le> m" by simp
  have "horizontal_radius (p_positionTree (fst (ornament cfg rnd i k))) = \<bar>m * c\<bar>"
    unfolding m_def c_def by (rule ornament_tree_radius)
  also have "\<dots> = c * m" using m c(1) by (simp add: mult.commute)
  also have "\<dots> \<le> 1.15 * m" using c(2) m by (rule mult_right_mono)
  finally show ?thesis by (simp add: m_def)
qed

lemma particle_loop_invariant:
  assumes "\<forall>p \<in> set acc. P p" and "\<forall>i k. P (fst (ornament cfg rnd i k))"
  shows "\<forall>p \<in> set (fst (fold (\<lambda>i (tempParticles, k).
             let (p, k') = ornament cfg rnd i k in (tempParticles @ [p], k')) idxs (acc, k0))). P p"
  using assms(1)
proof (induction idxs arbitrary: acc k0)
  case Nil
  then show ?case by simp
next
  case (Cons i idxs)
  have "\<forall>p \<in> set (acc @ [fst (ornament cfg rnd i k0)]). P p"
    using Cons.prems assms(2) by simp
  from Cons.IH [OF this, of "snd (ornament cfg rnd i k0)"]
  show ?case by (simp add: split_def Let_def)
qed

lemma particle_loop_length:
  "length (fst (fold (\<lambda>i (tempParticles, k).
             let (p, k') = ornament cfg rnd i k in (tempParticles @ [p], k')) idxs (acc, k0)))
     = length acc + length idxs"
  by (induction idxs arbitrary: acc k0) (simp_all add: split_def Let_def)

lemma generateParticles_single:
  "PARTICLE_COUNT cfg = 1 \<Longrightarrow>
   fst (generateParticles cfg rnd k0) = [fst (ornament cfg rnd 0 k0)]"
  by (simp add: generateParticles_def split_def Let_def)

lemma surface_ornament_radius:
  assumes "0 \<le> TREE_RADIUS_BOTTOM cfg" and "rnd k > 0.25" and "0 \<le> rnd (Suc k)"
  shows "horizontal_radius (p_positionTree (fst (ornament cfg rnd i k))) =
     (0.9 + rnd (Suc k) * 0.25) *
       maxRadiusAtY cfg (height (p_positionTree (fst (ornament cfg rnd i k))))"
proof -
  define m where "m = maxRadiusAtY cfg (height (p_positionTree (fst (ornament cfg rnd i k))))"
  have "0.2 \<le> m" unfolding m_def using assms(1) by (rule maxRadiusAtY_lower)
  then have "0 \<le> m * (0.9 + rnd (Suc k) * 0.25)" using assms(3) by simp
  then show ?thesis
    unfolding ornament_tree_radius m_def [symmetric] using assms(2) by (simp add: mult.commute)
qed

lemma first_ornament_max_radius:
  "maxRadiusAtY config0 (height (p_positionTree (fst (ornament config0 draws_high 0 0)))) = 21/5"
  by (simp add: ornament_positionTree maxRadiusAtY_def config0_def)

lemma first_ornament_radius:
  "horizontal_radius (p_positionTree (fst (ornament config0 draws_high 0 0))) = 189/40"
  by (simp add: ornament_tree_radius first_ornament_max_radius draws_high_def)

lemma first_ornament_is_all:
  "fst (generateParticles config0 draws_high 0) = [fst (ornament config0 draws_high 0 0)]"
  by (rule generateParticles_single) (simp add: config0_def)

text \<open>
  C9 (as amended). For every ornament count \<open>N \<ge> 1\<close>, every sequence of random draws in
  \<open>[0, 1)\<close>, a positive tree height and non-negative radii in the configuration, the
  generator produces \<open>N\<close> ornaments; each scatter-layout point lies within \<open>SCATTER_RADIUS\<close>
  of the origin, and each tree-layout point's horizontal radius is at most 1.15 times
  \<open>maxRadiusAtY\<close> at the point's height (the radius scale of a surface ornament goes up to
  1.15). The bounds hold exactly, so also with any tolerance added.
\<close>

theorem ornament_layout_bounds:
  assumes "\<forall>k. 0 \<le> rnd k \<and> rnd k < 1"
    and "0 < TREE_HEIGHT cfg" and "0 \<le> TREE_RADIUS_BOTTOM cfg" and "0 \<le> SCATTER_RADIUS cfg"
    and "1 \<le> PARTICLE_COUNT cfg"
  shows "length (fst (generateParticles cfg rnd k0)) = PARTICLE_COUNT cfg \<and>
     (\<forall>p \<in> set (fst (generateParticles cfg rnd k0)).
        norm3 (p_positionScatter p) \<le> SCATTER_RADIUS cfg \<and>
        horizontal_radius (p_positionTree p)
          \<le> 1.15 * maxRadiusAtY cfg (height (p_positionTree p)))"
proof -
  have len: "length (fst (generateParticles cfg rnd k0)) = PARTICLE_COUNT cfg"
    unfolding generateParticles_def particle_loop_length by simp
  have each: "\<forall>i k. norm3 (p_positionScatter (fst (ornament cfg rnd i k))) \<le> SCATTER_RADIUS cfg \<and>
        horizontal_radius (p_positionTree (fst (ornament cfg rnd i k)))
          \<le> 1.15 * maxRadiusAtY cfg (height (p_positionTree (fst (ornament cfg rnd i k))))"
    using ornament_scatter_bound [OF assms(1) assms(4)] ornament_tree_bound [OF assms(1) assms(3)]
    by blast
  have "\<forall>p \<in> set (fst (generateParticles cfg rnd k0)).
        norm3 (p_positionScatter p) \<le> SCATTER_RADIUS cfg \<and>
        horizontal_radius (p_positionTree p)
          \<le> 1.15 * maxRadiusAtY cfg (height (p_positionTree p))"
    unfolding generateParticles_def
    by (rule particle_loop_invariant) (simp, rule each)
  with len show ?thesis by blast
qed

theorem ornament_layout_bounds_witness:
  "length (fst (generateParticles config0 draws_half 0)) = 1 \<and>
   norm3 (p_positionScatter (fst (ornament config0 draws_half 0 0))) \<le> 15 \<and>
   horizontal_radius (p_positionTree (fst (ornament config0 draws_half 0 0)))
     \<le> 1.15 * maxRadiusAtY config0 (height (p_positionTree (fst (ornament config0 draws_half 0 0))))"
proof -
  have single: "fst (generateParticles config0 draws_half 0) = [fst (ornament config0 draws_half 0 0)]"
    by (rule generateParticles_single) (simp add: config0_def)
  have hyps: "\<forall>k. 0 \<le> draws_half k \<and> draws_half k < 1" "0 < TREE_HEIGHT config0"
    "0 \<le> TREE_RADIUS_BOTTOM config0" "0 \<le> SCATTER_RADIUS config0" "1 \<le> PARTICLE_COUNT config0"
    by (simp_all add: draws_half_def config0_def)
  have "SCATTER_RADIUS config0 = 15" "PARTICLE_COUNT config0 = 1"
    by (simp_all add: config0_def)
  with ornament_layout_bounds [OF hyps, of 0] show ?thesis
    by (simp add: single)
qed

text \<open>
  C9 (counterexample to the claim as stated). With one ornament, the configuration of tree
  height 12 and bottom radius 4, and every random draw equal to 0.9, the ornament is a
  surface ornament of radius scale 1.125: its horizontal radius is 4.725, while
  \<open>maxRadiusAtY\<close> at its height is 4.2. The excess is more than one half, not a rounding
  tolerance.
\<close>

theorem tree_radius_exceeds_cone:
  "length (fst (generateParticles config0 draws_high 0)) = 1 \<and>
   \<not> horizontal_radius (p_positionTree (hd (fst (generateParticles config0 draws_high 0))))
       \<le> maxRadiusAtY config0
            (height (p_positionTree (hd (fst (generateParticles config0 draws_high 0))))) + 1/2"
  by (simp add: first_ornament_is_all first_ornament_radius first_ornament_max_radius)

section \<open>Frame of gesture processing\<close>

lemma handleGestureDetected_frame:
  "\<exists>a f. handleGestureDetected gesture handX handY s =
     s\<lparr>appState := a, currentGesture := gesture, focusedPhotoIndex := f,
       handPositionRef := (handX, handY)\<rparr>"
proof -
  have "handleGestureDetected gesture handX handY s =
     s\<lparr>appState := appState (handleGestureDetected gesture handX handY s),
       currentGesture := gesture,
       focusedPhotoIndex := focusedPhotoIndex (handleGestureDetected gesture handX handY s),
       handPositionRef := (handX, handY)\<rparr>"
    by (simp add: handleGestureDetected_def Let_def)
  then show ?thesis by blast
qed

lemma useMemo_current:
  "\<exists>m. layoutMemo (useMemo cfg rnd w) = Some m \<and> memo_deps m = photos (app (useMemo cfg rnd w))"
  by (simp add: useMemo_def recompute_def split_def Let_def split: option.split)

text \<open>
  C10. In a world whose layout memo is current (its dependency is the present photo array, as
  after every render), processing a gesture sample leaves the photo collection and the
  memoised layout unchanged, so no entity's tree-layout or scatter-layout position changes
  and nothing is generated anew; the state of the application differs from the one before at
  most in the display state, the focused index, the current gesture and the hand position.
\<close>

theorem gesture_processing_frame:
  assumes "layoutMemo w = Some m" and "memo_deps m = photos (app w)"
  shows "photos (app (processGesture cfg rnd gesture handX handY w)) = photos (app w) \<and>
     layoutMemo (processGesture cfg rnd gesture handX handY w) = Some m \<and>
     randomCalls (processGesture cfg rnd gesture handX handY w) = randomCalls w \<and>
     (\<exists>a f. app (processGesture cfg rnd gesture handX handY w) =
        (app w)\<lparr>appState := a, currentGesture := gesture, focusedPhotoIndex := f,
                handPositionRef := (handX, handY)\<rparr>)"
proof -
  obtain a f where step: "handleGestureDetected gesture handX handY (app w) =
     (app w)\<lparr>appState := a, currentGesture := gesture, focusedPhotoIndex := f,
             handPositionRef := (handX, handY)\<rparr>"
    using handleGestureDetected_frame by blast
  then have same: "photos (handleGestureDetected gesture handX handY (app w)) = photos (app w)"
    by simp
  have "processGesture cfg rnd gesture handX handY w =
      w\<lparr>app := handleGestureDetected gesture handX handY (app w)\<rparr>"
    using assms same by (simp add: processGesture_def useMemo_def)
  with assms step show ?thesis by auto
qed

theorem gesture_processing_frame_witness:
  "layoutMemo (useMemo config0 draws_half \<lparr>app = initial, layoutMemo = None, randomCalls = 0\<rparr>)
     = Some \<lparr>memo_deps = DEFAULT_PHOTOS,
             memo_value = fst (generateLayout config0 draws_half DEFAULT_PHOTOS 0)\<rparr> \<and>
   photos (app (processGesture config0 draws_half OPEN 1 1
      (useMemo config0 draws_half \<lparr>app = initial, layoutMemo = None, randomCalls = 0\<rparr>)))
     = DEFAULT_PHOTOS \<and>
   layoutMemo (processGesture config0 draws_half OPEN 1 1
      (useMemo config0 draws_half \<lparr>app = initial, layoutMemo = None, randomCalls = 0\<rparr>))
     = Some \<lparr>memo_deps = DEFAULT_PHOTOS,
             memo_value = fst (generateLayout config0 draws_half DEFAULT_PHOTOS 0)\<rparr>"
proof -
  define w0 where
    "w0 = useMemo config0 draws_half \<lparr>app = initial, layoutMemo = None, randomCalls = 0\<rparr>"
  define m0 where
    "m0 = \<lparr>memo_deps = DEFAULT_PHOTOS,
            memo_value = fst (generateLayout config0 draws_half DEFAULT_PHOTOS 0)\<rparr>"
  have memo: "layoutMemo w0 = Some m0"
    by (simp add: w0_def m0_def useMemo_def recompute_def split_def Let_def initial_def)
  have deps: "memo_deps m0 = photos (app w0)"
    by (simp add: w0_def m0_def useMemo_def recompute_def split_def Let_def initial_def)
  have "photos (app w0) = DEFAULT_PHOTOS"
    by (simp add: w0_def useMemo_def recompute_def split_def Let_def initial_def)
  with gesture_processing_frame [OF memo deps, of config0 draws_half OPEN 1 1] memo
  show ?thesis
    unfolding w0_def [symmetric] m0_def [symmetric] by simp
qed
end
